theory Spec2Isabelle
  imports Main
begin

section \<open>Log records and the values the handler builds\<close>


text \<open>
  The five attributes the handlers read, for a record that has them all: the functions
  below are the source's functions on such a record. \<open>formatted\<close> (further down) reads them
  from a \<open>LogRecord\<close>, or raises \<^verbatim>\<open>AttributeError\<close>.
\<close>

record log_record =
  levelno :: int
  levelname :: string
  message :: string
  module :: string
  asctime :: string

text \<open>The level constants of the \<^verbatim>\<open>logging\<close> module.\<close>

definition NOTSET :: int where "NOTSET = 0"
definition DEBUG :: int where "DEBUG = 10"
definition INFO :: int where "INFO = 20"
definition WARNING :: int where "WARNING = 30"
definition ERROR :: int where "ERROR = 40"
definition CRITICAL :: int where "CRITICAL = 50"

datatype exn =
  ValueError string
  | AttributeError string
  | HTTPError int
  | URLError string

text \<open>The value of a \<^verbatim>\<open>datetime\<close> as far as the handlers are concerned.\<close>

record datetime =
  year :: nat
  month :: nat
  day :: nat
  hour :: nat
  minute :: nat
  second :: nat

text \<open>
  \<^verbatim>\<open>discord.Embed\<close>: the keyword arguments of the constructor and the fields added by
  \<^verbatim>\<open>add_field(name=..., value=...)\<close>, in the order of the calls. \<^verbatim>\<open>discord.Color(n)\<close>
  is kept as its integer value \<open>n\<close>.
\<close>

record embed =
  description :: string
  color :: int
  timestamp :: datetime
  embed_fields :: "(string \<times> string) list"

definition Embed :: "string \<Rightarrow> int \<Rightarrow> datetime \<Rightarrow> embed" where
  "Embed d c t = \<lparr>description = d, color = c, timestamp = t, embed_fields = []\<rparr>"

definition add_field :: "string \<Rightarrow> string \<Rightarrow> embed \<Rightarrow> embed" where
  "add_field n v e = e\<lparr>embed_fields := embed_fields e @ [(n, v)]\<rparr>"

text \<open>The JSON-serialisable values \<^verbatim>\<open>webhook_format\<close> builds; a dict keeps its insertion order.\<close>

datatype json =
  JString string
  | JInt int
  | JBool bool
  | JList "json list"
  | JDict "(string \<times> json) list"

fun json_get :: "string \<Rightarrow> json \<Rightarrow> json option" where
  "json_get k (JDict kvs) = map_of kvs k"
| "json_get k _ = None"

section \<open>String operations of Python used by the source\<close>

text \<open>\<^verbatim>\<open>s.split(sep)\<close> for a separator of one character: the result is never empty.\<close>

fun split :: "char \<Rightarrow> string \<Rightarrow> string list" where
  "split sep [] = [[]]"
| "split sep (c # cs) =
     (if c = sep then [] # split sep cs
      else (case split sep cs of
              [] \<Rightarrow> [[c]]
            | p # ps \<Rightarrow> (c # p) # ps))"

text \<open>\<^verbatim>\<open>s.replace(old, new)\<close> for \<open>old\<close> of one character: every occurrence is replaced.\<close>

definition replace :: "char \<Rightarrow> string \<Rightarrow> string \<Rightarrow> string" where
  "replace old new s = concat (map (\<lambda>c. if c = old then new else [c]) s)"

section \<open>loggord/handler.py: formatting\<close>

definition get_color :: "log_record \<Rightarrow> int" where
  "get_color r =
     (if levelno r \<ge> 40 then 0xE74C3C
      else if levelno r = 30 then 0xF1C40F
      else 0x95A5A6)"

text \<open>
  \<^verbatim>\<open>record.asctime.split(',')[0]\<close>. The index 0 is always in range, see
  \<open>split_not_Nil\<close> below, so \<open>hd\<close> is applied to a non-empty list only.
\<close>

definition get_timestamp :: "log_record \<Rightarrow> string" where
  "get_timestamp r = hd (split (CHR '','') (asctime r))"

text \<open>
  \<^verbatim>\<open>datetime.fromisoformat\<close> belongs to the standard library: it is a parameter here, and
  \<open>Inl\<close> is the exception it raises on a string it does not accept.
\<close>

definition bot_format :: "(string \<Rightarrow> exn + datetime) \<Rightarrow> log_record \<Rightarrow> exn + embed" where
  "bot_format fromisoformat r =
     (let color = get_color r;
          timestamp = get_timestamp r
      in case fromisoformat timestamp of
           Inl e \<Rightarrow> Inl e
         | Inr dt \<Rightarrow>
             Inr (add_field ''Timestamp'' timestamp
                   (add_field ''Module'' (module r)
                     (add_field ''Level'' (levelname r)
                       (Embed (message r) color dt)))))"

definition webhook_format :: "log_record \<Rightarrow> json" where
  "webhook_format r =
     (let color = get_color r;
          timestamp = get_timestamp r
      in JDict
          [(''embeds'', JList
             [JDict
               [(''description'', JString (message r)),
                (''color'', JInt color),
                (''timestamp'', JString (replace (CHR '' '') ''T'' timestamp @ ''.000Z'')),
                (''fields'', JList
                  [JDict [(''name'', JString ''Level''),
                          (''value'', JString (levelname r)),
                          (''inline'', JBool True)],
                   JDict [(''name'', JString ''Module''),
                          (''value'', JString (module r)),
                          (''inline'', JBool True)]])]])])"

section \<open>main.py: formatting\<close>

text \<open>
  \<^verbatim>\<open>discord.Color.red()\<close>, \<^verbatim>\<open>discord.Color.yellow()\<close> and \<^verbatim>\<open>discord.Color.greyple()\<close> are
  defined by the discord library, not by this repository: \<open>main_format\<close> takes their
  integer values as a parameter.
\<close>

record palette =
  red :: int
  yellow :: int
  greyple :: int

definition main_format ::
  "palette \<Rightarrow> (string \<Rightarrow> exn + datetime) \<Rightarrow> log_record \<Rightarrow> exn + embed" where
  "main_format Color fromisoformat r =
     (let color = (if levelno r \<ge> 40 then red Color
                   else if levelno r = 30 then yellow Color
                   else greyple Color);
          timestamp = hd (split (CHR '','') (asctime r))
      in case fromisoformat timestamp of
           Inl e \<Rightarrow> Inl e
         | Inr dt \<Rightarrow>
             Inr (add_field ''Timestamp'' timestamp
                   (add_field ''Module'' (module r)
                     (add_field ''Level'' (levelname r)
                       (Embed (message r) color dt)))))"

text \<open>
  The values the discord.py library gives the three colours (\<^verbatim>\<open>discord/colour.py\<close>:
  \<^verbatim>\<open>red\<close> is \<^verbatim>\<open>0xE74C3C\<close>, \<^verbatim>\<open>yellow\<close> is \<^verbatim>\<open>0xFEE75C\<close>, \<^verbatim>\<open>greyple\<close> is \<^verbatim>\<open>0x99AAB5\<close>).
\<close>

definition discord_py_palette :: palette where
  "discord_py_palette = \<lparr>red = 0xE74C3C, yellow = 0xFEE75C, greyple = 0x99AAB5\<rparr>"

section \<open>The collaborators: bot session, event loop, network, logger registry\<close>

text \<open>
  A channel object, by identity, and the part of a \<^verbatim>\<open>commands.Bot\<close> the handlers use: the
  identity of the bot (and of its event loop) and its channel cache.
  \<^verbatim>\<open>bot.get_channel(id)\<close> looks the identifier up and returns \<^verbatim>\<open>None\<close> when there is no
  such channel, also for the identifier \<^verbatim>\<open>None\<close>.
\<close>

type_synonym channel = nat

record bot =
  bot_id :: nat
  channels :: "(int \<times> channel) list"

definition get_channel :: "bot \<Rightarrow> int option \<Rightarrow> channel option" where
  "get_channel b cid = (case cid of None \<Rightarrow> None | Some i \<Rightarrow> map_of (channels b) i)"

text \<open>
  \<^verbatim>\<open>DiscordLogHandler\<close> of loggord/handler.py: its three attributes and the \<^verbatim>\<open>level\<close> it
  inherits from \<^verbatim>\<open>logging.Handler\<close>.
\<close>

record handler =
  webhook_url :: "string option"
  bot :: "bot option"
  channel_id :: "int option"
  level :: int

text \<open>\<^verbatim>\<open>DiscordLogHandler\<close> of main.py.\<close>

record main_handler =
  main_bot :: bot
  main_channel_id :: int
  main_level :: int

text \<open>The coroutine objects \<^verbatim>\<open>self._send_log(embed)\<close> of the two classes.\<close>

datatype task =
  SendLog handler embed
  | MainSendLog main_handler embed

datatype registered =
  PackageHandler handler
  | ScriptHandler main_handler

fun handler_level :: "registered \<Rightarrow> int" where
  "handler_level (PackageHandler h) = level h"
| "handler_level (ScriptHandler h) = main_level h"

record logger =
  logger_level :: int
  handlers :: "registered list"

record http_request =
  url :: string
  http_method :: string
  headers :: "(string \<times> string) list"
  data :: "json option"

type_synonym http_response = int

text \<open>
  What the network does with one request: it answers with a status code, and with the URL
  that \<^verbatim>\<open>urllib\<close> takes from the response as the target of a redirect if there is one, or
  the transport fails.
\<close>

datatype reply =
  Reply int "string option"
  | Unreachable string

text \<open>
  What the program has done to the outside: the registry of named loggers, the tasks
  created on the event loop of each bot, the HTTP requests sent and the calls of
  \<^verbatim>\<open>channel.send\<close>.
\<close>

record world =
  loggers :: "string \<rightharpoonup> logger"
  loop_tasks :: "nat \<Rightarrow> task list"
  requests :: "http_request list"
  sent :: "(channel \<times> embed) list"

text \<open>
  What the source depends on and the repository does not define: the parser of
  \<^verbatim>\<open>datetime\<close>, the network, the number of redirects \<^verbatim>\<open>urllib\<close> follows before it gives up,
  \<^verbatim>\<open>channel.send\<close> and the colours of the discord library. The network sees the requests
  made before, so that it may answer the same request differently.
  \<^verbatim>\<open>data\<close> of a request stands for \<^verbatim>\<open>json.dumps(payload).encode()\<close>.
\<close>

record env =
  fromisoformat :: "string \<Rightarrow> exn + datetime"
  transport :: "http_request list \<Rightarrow> http_request \<Rightarrow> reply"
  redirections :: nat
  channel_send :: "channel \<Rightarrow> embed \<Rightarrow> exn + unit"
  Color :: palette

text \<open>\<^verbatim>\<open>loop.create_task(coro)\<close>: the coroutine is queued on the loop, not run.\<close>

definition create_task :: "bot \<Rightarrow> task \<Rightarrow> world \<Rightarrow> world" where
  "create_task b t w = w\<lparr>loop_tasks := (loop_tasks w)(bot_id b := loop_tasks w (bot_id b) @ [t])\<rparr>"

text \<open>
  The part of the \<^verbatim>\<open>logging\<close> module the source calls. A logger is an object of the
  registry, referred to by its name; the registry keeps the own level and the handlers of
  each logger. The hierarchy of loggers (parents, placeholders, the effective level a logger
  passes on to its descendants) is not part of this model, so nothing is said here about
  what a call does to the descendants of a logger. \<^verbatim>\<open>addHandler\<close> appends: the handler is a
  new object, never in the list already.
\<close>

definition getLogger :: "string \<Rightarrow> world \<Rightarrow> world" where
  "getLogger name w =
     (case loggers w name of
        Some lg \<Rightarrow> w
      | None \<Rightarrow> w\<lparr>loggers := (loggers w)(name \<mapsto> \<lparr>logger_level = NOTSET, handlers = []\<rparr>)\<rparr>)"

definition setLevel :: "string \<Rightarrow> int \<Rightarrow> world \<Rightarrow> world" where
  "setLevel name lvl w =
     (case loggers w name of
        Some lg \<Rightarrow> w\<lparr>loggers := (loggers w)(name \<mapsto> lg\<lparr>logger_level := lvl\<rparr>)\<rparr>
      | None \<Rightarrow> w)"

definition addHandler :: "string \<Rightarrow> registered \<Rightarrow> world \<Rightarrow> world" where
  "addHandler name h w =
     (case loggers w name of
        Some lg \<Rightarrow> w\<lparr>loggers := (loggers w)(name \<mapsto> lg\<lparr>handlers := handlers lg @ [h]\<rparr>)\<rparr>
      | None \<Rightarrow> w)"

text \<open>
  \<^verbatim>\<open>Logger.getEffectiveLevel\<close>: the logger's own level unless it is \<^verbatim>\<open>NOTSET\<close>, then the
  level \<open>inherited\<close> from its ancestors. \<^verbatim>\<open>Logger.isEnabledFor\<close> compares with it, and
  \<^verbatim>\<open>Logger.callHandlers\<close> passes the record to the handlers whose level it reaches.
\<close>

definition getEffectiveLevel :: "logger \<Rightarrow> int \<Rightarrow> int" where
  "getEffectiveLevel lg inherited = (if logger_level lg \<noteq> 0 then logger_level lg else inherited)"

definition isEnabledFor :: "logger \<Rightarrow> int \<Rightarrow> int \<Rightarrow> bool" where
  "isEnabledFor lg inherited lvl = (lvl \<ge> getEffectiveLevel lg inherited)"

definition callHandlers :: "logger \<Rightarrow> log_record \<Rightarrow> registered list" where
  "callHandlers lg r = filter (\<lambda>h. levelno r \<ge> handler_level h) (handlers lg)"

section \<open>loggord/handler.py: the handler\<close>

text \<open>
  \<^verbatim>\<open>__init__\<close>. \<^verbatim>\<open>not bot\<close> holds of \<^verbatim>\<open>None\<close> only; \<^verbatim>\<open>not webhook_url\<close> holds of \<^verbatim>\<open>None\<close> and
  of the empty string. \<^verbatim>\<open>logging.Handler.__init__\<close> sets the level to \<^verbatim>\<open>NOTSET\<close>.
\<close>

definition truthy_bot :: "bot option \<Rightarrow> bool" where
  "truthy_bot b = (b \<noteq> None)"

definition truthy_str :: "string option \<Rightarrow> bool" where
  "truthy_str s = (s \<noteq> None \<and> s \<noteq> Some [])"

definition init :: "string option \<Rightarrow> bot option \<Rightarrow> int option \<Rightarrow> exn + handler" where
  "init webhook_url' bot' channel_id' =
     (if \<not> truthy_bot bot' \<and> \<not> truthy_str webhook_url' then
        Inl (ValueError ''Either bot or webhook_url must be provided.'')
      else if truthy_bot bot' \<and> truthy_str webhook_url' then
        Inl (ValueError ''Cannot provide both bot and webhook_url.'')
      else
        Inr \<lparr>webhook_url = webhook_url', bot = bot', channel_id = channel_id', level = NOTSET\<rparr>)"

definition from_bot :: "bot \<Rightarrow> int \<Rightarrow> exn + handler" where
  "from_bot b cid = init None (Some b) (Some cid)"

definition from_webhook :: "string \<Rightarrow> exn + handler" where
  "from_webhook u = init (Some u) None None"

text \<open>
  \<^verbatim>\<open>urllib.request.Request(url, ...)\<close> raises \<^verbatim>\<open>ValueError\<close> for a URL without a scheme: a
  non-empty run of characters other than \<open>/\<close> and \<open>:\<close>, followed by \<open>:\<close>.
\<close>

definition has_scheme :: "string \<Rightarrow> bool" where
  "has_scheme u =
     (takeWhile (\<lambda>c. c \<noteq> CHR ''/'' \<and> c \<noteq> CHR '':'') u \<noteq> []
      \<and> (case dropWhile (\<lambda>c. c \<noteq> CHR ''/'' \<and> c \<noteq> CHR '':'') u of
            [] \<Rightarrow> False
          | c # cs \<Rightarrow> c = CHR '':''))"

definition Request ::
  "string \<Rightarrow> string \<Rightarrow> (string \<times> string) list \<Rightarrow> json option \<Rightarrow> exn + http_request" where
  "Request u m hs d =
     (if has_scheme u then Inr \<lparr>url = u, http_method = m, headers = hs, data = d\<rparr>
      else Inl (ValueError ''unknown url type''))"

text \<open>
  \<^verbatim>\<open>urllib.request.urlopen\<close>, as far as \<open>emit\<close> depends on it. A transport failure raises
  \<^verbatim>\<open>URLError\<close>. A response with a status from 200 to 299 is returned. The statuses 301, 302
  and 303 (and 307, 308 for \<^verbatim>\<open>GET\<close> and \<^verbatim>\<open>HEAD\<close>) with a redirect target are followed by a
  \<^verbatim>\<open>GET\<close> request without body and without the content headers, unless the number of
  redirects is used up. Every other response raises \<^verbatim>\<open>HTTPError\<close>. The function returns the
  requests sent so far with the result.
\<close>

definition lower :: "char \<Rightarrow> char" where
  "lower c =
     (case map_of (zip ''ABCDEFGHIJKLMNOPQRSTUVWXYZ'' ''abcdefghijklmnopqrstuvwxyz'') c of
        None \<Rightarrow> c
      | Some l \<Rightarrow> l)"

definition redirect_request :: "http_request \<Rightarrow> int \<Rightarrow> string option \<Rightarrow> http_request option" where
  "redirect_request req code location =
     (case location of
        None \<Rightarrow> None
      | Some newurl \<Rightarrow>
          (if (code \<in> {301, 302, 303, 307, 308} \<and> http_method req \<in> {''GET'', ''HEAD''})
              \<or> (code \<in> {301, 302, 303} \<and> http_method req = ''POST'') then
             Some \<lparr>url = newurl, http_method = ''GET'',
                   headers = filter (\<lambda>(k, v). map lower k \<notin> {''content-length'', ''content-type''})
                               (headers req),
                   data = None\<rparr>
           else None))"

fun urlopen ::
  "(http_request list \<Rightarrow> http_request \<Rightarrow> reply) \<Rightarrow> nat \<Rightarrow> http_request list \<Rightarrow> http_request
     \<Rightarrow> (exn + http_response) \<times> http_request list" where
  "urlopen net 0 hist req =
     (case net hist req of
        Unreachable msg \<Rightarrow> (Inl (URLError msg), hist @ [req])
      | Reply code location \<Rightarrow>
          (if 200 \<le> code \<and> code < 300 then (Inr code, hist @ [req])
           else (Inl (HTTPError code), hist @ [req])))"
| "urlopen net (Suc n) hist req =
     (case net hist req of
        Unreachable msg \<Rightarrow> (Inl (URLError msg), hist @ [req])
      | Reply code location \<Rightarrow>
          (if 200 \<le> code \<and> code < 300 then (Inr code, hist @ [req])
           else (case redirect_request req code location of
                   None \<Rightarrow> (Inl (HTTPError code), hist @ [req])
                 | Some new \<Rightarrow> urlopen net n (hist @ [req]) new)))"


text \<open>
  \<^verbatim>\<open>emit\<close> on a record that has its attributes. The first branch is taken when \<^verbatim>\<open>self.bot\<close>
  is not \<^verbatim>\<open>None\<close>, the second when \<^verbatim>\<open>self.webhook_url\<close> is a non-empty string; otherwise
  nothing is done. Nothing is caught: an exception of \<^verbatim>\<open>Request\<close> or \<^verbatim>\<open>urlopen\<close> is the
  result.
\<close>

definition emit :: "env \<Rightarrow> handler \<Rightarrow> log_record \<Rightarrow> world \<Rightarrow> (exn + unit) \<times> world" where
  "emit ev self r w =
     (case bot self of
        Some b \<Rightarrow>
          (case bot_format (fromisoformat ev) r of
             Inl e \<Rightarrow> (Inl e, w)
           | Inr embed' \<Rightarrow> (Inr (), create_task b (SendLog self embed') w))
      | None \<Rightarrow>
          (if truthy_str (webhook_url self) then
             (let data' = Some (webhook_format r)
              in case Request (the (webhook_url self)) ''POST''
                        [(''Content-Type'', ''application/json''), (''User-Agent'', ''Mozilla/5.0'')]
                        data' of
                   Inl e \<Rightarrow> (Inl e, w)
                 | Inr req \<Rightarrow>
                     (case urlopen (transport ev) (redirections ev) (requests w) req of
                        (Inl e, sent') \<Rightarrow> (Inl e, w\<lparr>requests := sent'\<rparr>)
                      | (Inr res, sent') \<Rightarrow> (Inr (), w\<lparr>requests := sent'\<rparr>)))
           else (Inr (), w)))"



text \<open>
  \<^verbatim>\<open>_send_log\<close>, the body of the scheduled task. \<^verbatim>\<open>channel.send\<close> on \<^verbatim>\<open>None\<close> raises
  \<^verbatim>\<open>AttributeError\<close>, here with the name of the attribute.
\<close>

definition send_log :: "env \<Rightarrow> handler \<Rightarrow> embed \<Rightarrow> world \<Rightarrow> (exn + unit) \<times> world" where
  "send_log ev self e w =
     (case bot self of
        Some b \<Rightarrow>
          (case get_channel b (channel_id self) of
             None \<Rightarrow> (Inl (AttributeError ''send''), w)
           | Some ch \<Rightarrow> (channel_send ev ch e, w\<lparr>sent := sent w @ [(ch, e)]\<rparr>))
      | None \<Rightarrow> (Inr (), w))"

text \<open>\<^verbatim>\<open>configure_discord_logging\<close>; the logger it returns is given by its name.\<close>

definition configure_discord_logging ::
  "string \<Rightarrow> bot option \<Rightarrow> int option \<Rightarrow> string option \<Rightarrow> world \<Rightarrow> (exn + string) \<times> world" where
  "configure_discord_logging name bot' channel_id' webhook_url' w =
     (let w1 = getLogger name w;
          w2 = setLevel name DEBUG w1
      in case init webhook_url' bot' channel_id' of
           Inl e \<Rightarrow> (Inl e, w2)
         | Inr discord_handler \<Rightarrow>
             (Inr name,
              addHandler name (PackageHandler (discord_handler\<lparr>level := INFO\<rparr>)) w2))"

section \<open>main.py: the handler\<close>

definition main_init :: "bot \<Rightarrow> int \<Rightarrow> main_handler" where
  "main_init b cid = \<lparr>main_bot = b, main_channel_id = cid, main_level = NOTSET\<rparr>"


definition main_send_log ::
  "env \<Rightarrow> main_handler \<Rightarrow> embed \<Rightarrow> world \<Rightarrow> (exn + unit) \<times> world" where
  "main_send_log ev self e w =
     (case get_channel (main_bot self) (Some (main_channel_id self)) of
        None \<Rightarrow> (Inl (AttributeError ''send''), w)
      | Some ch \<Rightarrow> (channel_send ev ch e, w\<lparr>sent := sent w @ [(ch, e)]\<rparr>))"

definition main_configure_discord_logging ::
  "string \<Rightarrow> bot \<Rightarrow> int \<Rightarrow> world \<Rightarrow> string \<times> world" where
  "main_configure_discord_logging name b cid w =
     (let w1 = getLogger name w;
          w2 = setLevel name DEBUG w1;
          discord_handler = main_init b cid
      in (name, addHandler name (ScriptHandler (discord_handler\<lparr>main_level := INFO\<rparr>)) w2))"

text \<open>The event loop running one of its tasks.\<close>

fun run_task :: "env \<Rightarrow> task \<Rightarrow> world \<Rightarrow> (exn + unit) \<times> world" where
  "run_task ev (SendLog h e) w = send_log ev h e w"
| "run_task ev (MainSendLog h e) w = main_send_log ev h e w"

section \<open>A concrete environment for the examples\<close>

text \<open>
  A parser for the form \<^verbatim>\<open>YYYY-MM-DD?HH:MM:SS\<close> (19 characters, any separator between date
  and time), which is the form of the default \<^verbatim>\<open>asctime\<close> up to its comma. It rejects every
  other string. The theorems hold for every parser; this one evaluates the examples.
\<close>

definition digit :: "char \<Rightarrow> nat option" where
  "digit c =
     (let n = (of_char c :: nat) in if 48 \<le> n \<and> n \<le> 57 then Some (n - 48) else None)"

fun number :: "nat \<Rightarrow> string \<Rightarrow> nat option" where
  "number acc [] = Some acc"
| "number acc (c # cs) =
     (case digit c of None \<Rightarrow> None | Some d \<Rightarrow> number (10 * acc + d) cs)"

definition days_in_month :: "nat \<Rightarrow> nat \<Rightarrow> nat" where
  "days_in_month y m =
     (if m = 2 then (if y mod 4 = 0 \<and> (y mod 100 \<noteq> 0 \<or> y mod 400 = 0) then 29 else 28)
      else if m \<in> {4, 6, 9, 11} then 30 else 31)"

definition iso_seconds :: "string \<Rightarrow> exn + datetime" where
  "iso_seconds s =
     (if length s = 19 \<and> s ! 4 = CHR ''-'' \<and> s ! 7 = CHR ''-''
         \<and> s ! 13 = CHR '':'' \<and> s ! 16 = CHR '':'' then
        (case (number 0 (take 4 s), number 0 (take 2 (drop 5 s)), number 0 (take 2 (drop 8 s)),
               number 0 (take 2 (drop 11 s)), number 0 (take 2 (drop 14 s)),
               number 0 (take 2 (drop 17 s))) of
           (Some y, Some m, Some d, Some h, Some mi, Some se) \<Rightarrow>
             (if 1 \<le> y \<and> 1 \<le> m \<and> m \<le> 12 \<and> 1 \<le> d \<and> d \<le> days_in_month y m
                 \<and> h < 24 \<and> mi < 60 \<and> se < 60 then
                Inr \<lparr>year = y, month = m, day = d, hour = h, minute = mi, second = se\<rparr>
              else Inl (ValueError ''Invalid isoformat string''))
         | _ \<Rightarrow> Inl (ValueError ''Invalid isoformat string''))
      else Inl (ValueError ''Invalid isoformat string''))"

text \<open>
  A network that answers every request with 204, one that answers with 404, one that cannot
  be reached, and one that answers a \<^verbatim>\<open>POST\<close> with 302 and a new location, and every other
  request with 200.
\<close>

definition env_ok :: env where
  "env_ok = \<lparr>fromisoformat = iso_seconds, transport = (\<lambda>hist req. Reply 204 None),
             redirections = 10, channel_send = (\<lambda>ch e. Inr ()), Color = discord_py_palette\<rparr>"




definition world0 :: world where
  "world0 = \<lparr>loggers = Map.empty, loop_tasks = (\<lambda>b. []), requests = [], sent = []\<rparr>"

definition boom :: log_record where
  "boom = \<lparr>levelno = 40, levelname = ''ERROR'', message = ''boom'', module = ''worker'',
           asctime = ''2024-03-01 12:00:00,123''\<rparr>"



definition warning :: log_record where
  "warning = \<lparr>levelno = 30, levelname = ''WARNING'', message = ''disk almost full'',
              module = ''worker'', asctime = ''2024-03-01 12:00:00,123''\<rparr>"

text \<open>A record formatted with \<^verbatim>\<open>datefmt='%d/%m/%Y %H:%M:%S'\<close>.\<close>

definition dated :: log_record where
  "dated = \<lparr>levelno = 40, levelname = ''ERROR'', message = ''boom'', module = ''worker'',
            asctime = ''01/03/2024 12:00:00''\<rparr>"

definition bot0 :: bot where
  "bot0 = \<lparr>bot_id = 1, channels = [(1234, 7)]\<rparr>"

text \<open>The handlers registered on the logger of a name; none when there is no such logger.\<close>

definition registered_on :: "world \<Rightarrow> string \<Rightarrow> registered list" where
  "registered_on w name = (case loggers w name of None \<Rightarrow> [] | Some lg \<Rightarrow> handlers lg)"



definition bot_handler0 :: handler where
  "bot_handler0 = \<lparr>webhook_url = None, bot = Some bot0, channel_id = Some 1234, level = INFO\<rparr>"

definition main_handler0 :: main_handler where
  "main_handler0 = \<lparr>main_bot = bot0, main_channel_id = 1234, main_level = INFO\<rparr>"

section \<open>Facts about the string operations\<close>

lemma split_not_Nil: "split sep s \<noteq> []"
  by (induction s) (auto split: list.splits)

lemma hd_split: "hd (split sep s) = takeWhile (\<lambda>c. c \<noteq> sep) s"
proof (induction s)
  case Nil
  show ?case by simp
next
  case (Cons c cs)
  then show ?case
    using split_not_Nil [of sep cs] by (auto split: list.splits)
qed

lemma replace_char: "replace old [new] s = map (\<lambda>c. if c = old then new else c) s"
  by (induction s) (simp_all add: replace_def)

lemma replace_append: "replace old new (s @ t) = replace old new s @ replace old new t"
  by (simp add: replace_def)

lemma replace_absent: "old \<notin> set s \<Longrightarrow> replace old new s = s"
  by (induction s) (auto simp: replace_def)

lemma replace_once:
  "old \<notin> set d \<Longrightarrow> old \<notin> set t \<Longrightarrow> replace old new (d @ old # t) = d @ new @ t"
proof -
  assume d: "old \<notin> set d" and t: "old \<notin> set t"
  have "replace old new (old # t) = new @ replace old new t"
    by (simp add: replace_def)
  with d t show ?thesis
    by (simp add: replace_append replace_absent)
qed

section \<open>Facts about the formatting functions\<close>

lemma get_timestamp_takeWhile: "get_timestamp r = takeWhile (\<lambda>c. c \<noteq> CHR '','') (asctime r)"
  by (simp add: get_timestamp_def hd_split)

lemma get_timestamp_boom: "get_timestamp boom = ''2024-03-01 12:00:00''"
  by (simp add: get_timestamp_def boom_def)

lemma iso_seconds_boom:
  "iso_seconds ''2024-03-01 12:00:00'' =
     Inr \<lparr>year = 2024, month = 3, day = 1, hour = 12, minute = 0, second = 0\<rparr>"
  by (simp add: iso_seconds_def digit_def days_in_month_def)

lemma bot_format_Inr:
  "parse (get_timestamp r) = Inr dt \<Longrightarrow>
   bot_format parse r =
     Inr \<lparr>description = message r, color = get_color r, timestamp = dt,
          embed_fields = [(''Level'', levelname r), (''Module'', module r),
                          (''Timestamp'', get_timestamp r)]\<rparr>"
  by (simp add: bot_format_def Let_def add_field_def Embed_def)

lemma bot_format_Inl: "parse (get_timestamp r) = Inl x \<Longrightarrow> bot_format parse r = Inl x"
  by (simp add: bot_format_def Let_def)

lemma main_format_bot_format:
  "main_format pal parse r =
     map_sum id (\<lambda>e. e\<lparr>color := (if levelno r \<ge> 40 then red pal
                                 else if levelno r = 30 then yellow pal
                                 else greyple pal)\<rparr>) (bot_format parse r)"
  by (cases "parse (get_timestamp r)")
     (simp_all add: main_format_def bot_format_def get_timestamp_def Let_def add_field_def Embed_def)

lemma webhook_embed:
  "json_get ''embeds'' (webhook_format r) =
     Some (JList [JDict
       [(''description'', JString (message r)),
        (''color'', JInt (get_color r)),
        (''timestamp'', JString (replace (CHR '' '') ''T'' (get_timestamp r) @ ''.000Z'')),
        (''fields'', JList
          [JDict [(''name'', JString ''Level''), (''value'', JString (levelname r)),
                  (''inline'', JBool True)],
           JDict [(''name'', JString ''Module''), (''value'', JString (module r)),
                  (''inline'', JBool True)]])]])"
  by (simp add: webhook_format_def Let_def)

lemma get_timestamp_dated: "get_timestamp dated = ''01/03/2024 12:00:00''"
  by (simp add: get_timestamp_def dated_def)

lemma iso_seconds_dated:
  "iso_seconds ''01/03/2024 12:00:00'' = Inl (ValueError ''Invalid isoformat string'')"
  by (simp add: iso_seconds_def)

lemma get_timestamp_warning: "get_timestamp warning = ''2024-03-01 12:00:00''"
  by (simp add: get_timestamp_def warning_def)

lemma iso_seconds_get_timestamp_boom:
  "iso_seconds (get_timestamp boom) =
     Inr \<lparr>year = 2024, month = 3, day = 1, hour = 12, minute = 0, second = 0\<rparr>"
  by (simp add: get_timestamp_boom iso_seconds_boom)

lemma iso_seconds_get_timestamp_warning:
  "iso_seconds (get_timestamp warning) =
     Inr \<lparr>year = 2024, month = 3, day = 1, hour = 12, minute = 0, second = 0\<rparr>"
  by (simp add: get_timestamp_warning iso_seconds_boom)

section \<open>Facts about the handlers and the registry\<close>

















lemma emit_bot:
  "bot self = Some b \<Longrightarrow>
   emit ev self r w =
     (case bot_format (fromisoformat ev) r of
        Inl e \<Rightarrow> (Inl e, w)
      | Inr e \<Rightarrow> (Inr (), create_task b (SendLog self e) w))"
  by (simp add: emit_def)


lemma init_Inr:
  "truthy_bot b \<noteq> truthy_str u \<Longrightarrow>
   init u b c = Inr \<lparr>webhook_url = u, bot = b, channel_id = c, level = NOTSET\<rparr>"
  by (auto simp: init_def)

lemma init_Inl:
  "truthy_bot b = truthy_str u \<Longrightarrow>
   init u b c =
     Inl (ValueError (if truthy_bot b then ''Cannot provide both bot and webhook_url.''
                      else ''Either bot or webhook_url must be provided.''))"
  by (auto simp: init_def)

lemma logger_level_update:
  "lg\<lparr>logger_level := l\<rparr> = \<lparr>logger_level = l, handlers = handlers lg\<rparr>"
  by (cases lg) simp

lemma prepare_logger:
  "setLevel name DEBUG (getLogger name w) =
     w\<lparr>loggers := (loggers w)(name \<mapsto>
          \<lparr>logger_level = DEBUG, handlers = registered_on w name\<rparr>)\<rparr>"
  by (cases "loggers w name") (simp_all add: setLevel_def getLogger_def registered_on_def logger_level_update)

lemma configure_Inr:
  "init u b c = Inr h \<Longrightarrow>
   configure_discord_logging name b c u w =
     (Inr name,
      w\<lparr>loggers := (loggers w)(name \<mapsto>
           \<lparr>logger_level = DEBUG,
            handlers = registered_on w name @ [PackageHandler (h\<lparr>level := INFO\<rparr>)]\<rparr>)\<rparr>)"
  by (simp add: configure_discord_logging_def Let_def prepare_logger addHandler_def)

lemma configure_Inl:
  "init u b c = Inl x \<Longrightarrow>
   configure_discord_logging name b c u w = (Inl x, setLevel name DEBUG (getLogger name w))"
  by (simp add: configure_discord_logging_def Let_def)

lemma main_configure:
  "main_configure_discord_logging name b c w =
     (name,
      w\<lparr>loggers := (loggers w)(name \<mapsto>
           \<lparr>logger_level = DEBUG,
            handlers = registered_on w name
              @ [ScriptHandler \<lparr>main_bot = b, main_channel_id = c, main_level = INFO\<rparr>]\<rparr>)\<rparr>)"
  by (simp add: main_configure_discord_logging_def Let_def prepare_logger addHandler_def
                main_init_def)

lemma debug_logger_enabled:
  "logger_level lg = DEBUG \<Longrightarrow> DEBUG \<le> lvl \<Longrightarrow> isEnabledFor lg inherited lvl"
  by (simp add: isEnabledFor_def getEffectiveLevel_def DEBUG_def)

lemma info_handler_filtered:
  "handler_level h = INFO \<Longrightarrow> levelno r = DEBUG \<Longrightarrow> h \<notin> set (callHandlers lg r)"
  by (simp add: callHandlers_def INFO_def DEBUG_def)

section \<open>The colour of a record\<close>




section \<open>Timestamps\<close>

text \<open>
  Claim C3. The display timestamp is \<^verbatim>\<open>asctime\<close> cut at its first comma. The timestamp of
  the webhook embed is the display timestamp with each space replaced by \<open>T\<close>, followed by
  \<open>.000Z\<close>; for a display timestamp with one separating space this replaces exactly that
  space.
\<close>

theorem C3_timestamps:
  "get_timestamp r = takeWhile (\<lambda>c. c \<noteq> CHR '','') (asctime r)
   \<and> (\<exists>e. json_get ''embeds'' (webhook_format r) = Some (JList [e])
          \<and> json_get ''timestamp'' e =
              Some (JString (map (\<lambda>c. if c = CHR '' '' then CHR ''T'' else c) (get_timestamp r)
                             @ ''.000Z''))
          \<and> (\<forall>d t. get_timestamp r = d @ '' '' @ t \<and> CHR '' '' \<notin> set d \<and> CHR '' '' \<notin> set t
                \<longrightarrow> json_get ''timestamp'' e = Some (JString (d @ ''T'' @ t @ ''.000Z''))))
   \<and> (asctime r = ''2024-03-01 12:00:00,123'' \<longrightarrow> get_timestamp r = ''2024-03-01 12:00:00'')"
proof -
  have "\<forall>d t. get_timestamp r = d @ '' '' @ t \<and> CHR '' '' \<notin> set d \<and> CHR '' '' \<notin> set t
          \<longrightarrow> replace (CHR '' '') ''T'' (get_timestamp r) = d @ ''T'' @ t"
    by (auto simp: replace_once)
  then show ?thesis
    by (simp add: webhook_embed get_timestamp_takeWhile flip: replace_char)
qed

theorem C3_timestamps_witness:
  "asctime boom = ''2024-03-01 12:00:00,123''
   \<and> get_timestamp boom = ''2024-03-01 12:00:00''
   \<and> get_timestamp boom = ''2024-03-01'' @ '' '' @ ''12:00:00''
   \<and> (\<exists>e. json_get ''embeds'' (webhook_format boom) = Some (JList [e])
          \<and> json_get ''timestamp'' e = Some (JString ''2024-03-01T12:00:00.000Z''))"
proof -
  have a: "asctime boom = ''2024-03-01 12:00:00,123''" by (simp add: boom_def)
  from C3_timestamps [of boom] a
  have g: "get_timestamp boom = ''2024-03-01 12:00:00''" by blast
  from C3_timestamps [of boom] obtain e where
    e: "json_get ''embeds'' (webhook_format boom) = Some (JList [e])"
    and t: "\<forall>d t. get_timestamp boom = d @ '' '' @ t \<and> CHR '' '' \<notin> set d \<and> CHR '' '' \<notin> set t
                \<longrightarrow> json_get ''timestamp'' e = Some (JString (d @ ''T'' @ t @ ''.000Z''))"
    by blast
  have "get_timestamp boom = ''2024-03-01'' @ '' '' @ ''12:00:00''
        \<and> CHR '' '' \<notin> set ''2024-03-01'' \<and> CHR '' '' \<notin> set ''12:00:00''"
    using g by simp
  with t have "json_get ''timestamp'' e = Some (JString (''2024-03-01'' @ ''T'' @ ''12:00:00'' @ ''.000Z''))"
    by blast
  with e a g show ?thesis by auto
qed

section \<open>Webhook delivery\<close>







section \<open>Bot delivery\<close>




text \<open>
  Claim C5, amended. The embed built in bot mode has the message of the record as its
  description, the colour of the level, the parsed display timestamp, and three fields in this
  order: Level, Module and Timestamp, the last with the display timestamp as its value. This
  embed is the one in the task that \<open>emit\<close> creates, and the task passes it to
  \<^verbatim>\<open>channel.send\<close> of the resolved channel. The embed of main.py has the same description,
  timestamp and fields.
\<close>

theorem C5_bot_message:
  "(\<forall>e. bot_format parse r = Inr e \<longrightarrow>
      description e = message r \<and> color e = get_color r
      \<and> parse (get_timestamp r) = Inr (timestamp e)
      \<and> embed_fields e = [(''Level'', levelname r), (''Module'', module r),
                          (''Timestamp'', get_timestamp r)])
   \<and> (\<forall>e. main_format pal parse r = Inr e \<longrightarrow>
      description e = message r
      \<and> parse (get_timestamp r) = Inr (timestamp e)
      \<and> embed_fields e = [(''Level'', levelname r), (''Module'', module r),
                          (''Timestamp'', get_timestamp r)])
   \<and> (\<forall>b e ch. bot self = Some b \<and> bot_format (fromisoformat ev) r = Inr e
        \<and> get_channel b (channel_id self) = Some ch \<longrightarrow>
        emit ev self r w = (Inr (), create_task b (SendLog self e) w)
        \<and> run_task ev (SendLog self e) w' = (channel_send ev ch e, w'\<lparr>sent := sent w' @ [(ch, e)]\<rparr>))"
proof -
  have 1: "\<forall>e. bot_format parse r = Inr e \<longrightarrow>
      description e = message r \<and> color e = get_color r
      \<and> parse (get_timestamp r) = Inr (timestamp e)
      \<and> embed_fields e = [(''Level'', levelname r), (''Module'', module r),
                          (''Timestamp'', get_timestamp r)]"
    by (cases "parse (get_timestamp r)") (auto simp: bot_format_Inr bot_format_Inl)
  then have 2: "\<forall>e. main_format pal parse r = Inr e \<longrightarrow>
      description e = message r
      \<and> parse (get_timestamp r) = Inr (timestamp e)
      \<and> embed_fields e = [(''Level'', levelname r), (''Module'', module r),
                          (''Timestamp'', get_timestamp r)]"
    by (cases "bot_format parse r") (auto simp: main_format_bot_format)
  have 3: "\<forall>b e ch. bot self = Some b \<and> bot_format (fromisoformat ev) r = Inr e
        \<and> get_channel b (channel_id self) = Some ch \<longrightarrow>
        emit ev self r w = (Inr (), create_task b (SendLog self e) w)
        \<and> run_task ev (SendLog self e) w' = (channel_send ev ch e, w'\<lparr>sent := sent w' @ [(ch, e)]\<rparr>)"
    by (simp add: emit_bot send_log_def)
  from 1 2 3 show ?thesis by blast
qed

theorem C5_bot_message_witness:
  "(\<exists>e. bot_format iso_seconds boom = Inr e
        \<and> description e = ''boom'' \<and> color e = 0xE74C3C
        \<and> embed_fields e = [(''Level'', ''ERROR''), (''Module'', ''worker''),
                            (''Timestamp'', ''2024-03-01 12:00:00'')]
        \<and> emit env_ok bot_handler0 boom world0 =
             (Inr (), create_task bot0 (SendLog bot_handler0 e) world0)
        \<and> run_task env_ok (SendLog bot_handler0 e) world0 = (Inr (), world0\<lparr>sent := [(7, e)]\<rparr>))
   \<and> (\<exists>e. main_format discord_py_palette iso_seconds boom = Inr e
        \<and> embed_fields e = [(''Level'', ''ERROR''), (''Module'', ''worker''),
                            (''Timestamp'', ''2024-03-01 12:00:00'')])"
proof -
  obtain e where e: "bot_format iso_seconds boom = Inr e"
    by (simp add: bot_format_Inr [of iso_seconds boom, OF iso_seconds_get_timestamp_boom])
  obtain m where m: "main_format discord_py_palette iso_seconds boom = Inr m"
    by (simp add: main_format_bot_format e)
  have f: "fromisoformat env_ok = iso_seconds" by (simp add: env_ok_def)
  have h: "bot bot_handler0 = Some bot0 \<and> bot_format (fromisoformat env_ok) boom = Inr e
           \<and> get_channel bot0 (channel_id bot_handler0) = Some 7"
    using e by (simp add: f bot_handler0_def get_channel_def bot0_def)
  note t = C5_bot_message [of iso_seconds boom discord_py_palette bot_handler0 env_ok world0 world0]
  from t e have 1: "description e = message boom \<and> color e = get_color boom
      \<and> embed_fields e = [(''Level'', levelname boom), (''Module'', module boom),
                          (''Timestamp'', get_timestamp boom)]"
    by blast
  from t m have 2: "embed_fields m = [(''Level'', levelname boom), (''Module'', module boom),
                          (''Timestamp'', get_timestamp boom)]"
    by blast
  from t h have 3: "emit env_ok bot_handler0 boom world0 =
             (Inr (), create_task bot0 (SendLog bot_handler0 e) world0)
        \<and> run_task env_ok (SendLog bot_handler0 e) world0 =
            (channel_send env_ok 7 e, world0\<lparr>sent := sent world0 @ [(7, e)]\<rparr>)"
    by blast
  have g: "message boom = ''boom''" "get_color boom = 0xE74C3C" "levelname boom = ''ERROR''"
    "module boom = ''worker''"
    by (simp_all add: boom_def get_color_def)
  have c: "channel_send env_ok 7 e = Inr ()" "sent world0 = []"
    by (simp_all add: env_ok_def world0_def)
  from e m 1 2 3 show ?thesis
    by (simp add: g c get_timestamp_boom)
qed

text \<open>
  Claim C5 as stated fails: the embed has a third field, Timestamp.
\<close>

theorem C5_counterexample:
  "bot_format iso_seconds boom =
     Inr \<lparr>description = ''boom'', color = 0xE74C3C,
          timestamp = \<lparr>year = 2024, month = 3, day = 1, hour = 12, minute = 0, second = 0\<rparr>,
          embed_fields = [(''Level'', ''ERROR''), (''Module'', ''worker''),
                          (''Timestamp'', ''2024-03-01 12:00:00'')]\<rparr>
   \<and> embed_fields (projr (bot_format iso_seconds boom))
       \<noteq> [(''Level'', levelname boom), (''Module'', module boom)]"
  by (simp add: bot_format_Inr [of iso_seconds boom, OF iso_seconds_get_timestamp_boom]
                get_timestamp_boom)
     (simp add: boom_def get_color_def)

text \<open>
  Claim C9, amended. For every record, \<open>main_format\<close> of main.py and \<open>bot_format\<close> of the
  package raise the same exception or return embeds with the same description, timestamp and
  fields; the colour of the first is \<^verbatim>\<open>discord.Color.red()\<close>, \<^verbatim>\<open>yellow()\<close> or \<^verbatim>\<open>greyple()\<close> by the
  thresholds of \<open>get_color\<close>. The two embeds are equal when these three colours have the
  values \<open>0xE74C3C\<close>, \<open>0xF1C40F\<close> and \<open>0x95A5A6\<close>; with the values of discord.py they are
  equal from level 40 on.
\<close>

theorem C9_script_and_package:
  "(\<forall>x. bot_format parse r = Inl x \<longrightarrow> main_format pal parse r = Inl x)
   \<and> (\<forall>e. bot_format parse r = Inr e \<longrightarrow>
        main_format pal parse r =
          Inr (e\<lparr>color := (if levelno r \<ge> 40 then red pal
                            else if levelno r = 30 then yellow pal
                            else greyple pal)\<rparr>))
   \<and> (red pal = 0xE74C3C \<and> yellow pal = 0xF1C40F \<and> greyple pal = 0x95A5A6 \<longrightarrow>
        main_format pal parse r = bot_format parse r)
   \<and> (levelno r \<ge> 40 \<longrightarrow> main_format discord_py_palette parse r = bot_format parse r)"
proof -
  have 1: "\<forall>x. bot_format parse r = Inl x \<longrightarrow> main_format pal parse r = Inl x"
    by (simp add: main_format_bot_format)
  have 2: "\<forall>e. bot_format parse r = Inr e \<longrightarrow>
        main_format pal parse r =
          Inr (e\<lparr>color := (if levelno r \<ge> 40 then red pal
                            else if levelno r = 30 then yellow pal
                            else greyple pal)\<rparr>)"
    by (simp add: main_format_bot_format)
  have 3: "main_format pal' parse r = bot_format parse r"
    if "(if levelno r \<ge> 40 then red pal' else if levelno r = 30 then yellow pal'
         else greyple pal') = get_color r" for pal'
    using that
    by (cases "parse (get_timestamp r)")
       (simp_all add: main_format_bot_format bot_format_Inr bot_format_Inl)
  have 4: "red pal = 0xE74C3C \<and> yellow pal = 0xF1C40F \<and> greyple pal = 0x95A5A6 \<longrightarrow>
        main_format pal parse r = bot_format parse r"
    by (auto intro!: 3 simp: get_color_def)
  have 5: "levelno r \<ge> 40 \<longrightarrow> main_format discord_py_palette parse r = bot_format parse r"
    by (auto intro!: 3 simp: get_color_def discord_py_palette_def)
  from 1 2 4 5 show ?thesis by blast
qed

theorem C9_script_and_package_witness:
  "main_format discord_py_palette iso_seconds boom = bot_format iso_seconds boom
   \<and> main_format discord_py_palette iso_seconds dated = Inl (ValueError ''Invalid isoformat string'')
   \<and> main_format \<lparr>red = 0xE74C3C, yellow = 0xF1C40F, greyple = 0x95A5A6\<rparr> iso_seconds warning
       = bot_format iso_seconds warning
   \<and> (\<exists>e. bot_format iso_seconds warning = Inr e
         \<and> main_format discord_py_palette iso_seconds warning = Inr (e\<lparr>color := 0xFEE75C\<rparr>))"
proof -
  have 1: "main_format discord_py_palette iso_seconds boom = bot_format iso_seconds boom"
    using C9_script_and_package [of iso_seconds boom discord_py_palette] by (simp add: boom_def)
  have "bot_format iso_seconds dated = Inl (ValueError ''Invalid isoformat string'')"
    by (simp add: bot_format_Inl get_timestamp_dated iso_seconds_dated)
  with C9_script_and_package [of iso_seconds dated discord_py_palette]
  have 2: "main_format discord_py_palette iso_seconds dated = Inl (ValueError ''Invalid isoformat string'')"
    by blast
  have 3: "main_format \<lparr>red = 0xE74C3C, yellow = 0xF1C40F, greyple = 0x95A5A6\<rparr> iso_seconds warning
       = bot_format iso_seconds warning"
    using C9_script_and_package [of iso_seconds warning
        "\<lparr>red = 0xE74C3C, yellow = 0xF1C40F, greyple = 0x95A5A6\<rparr>"]
    by simp
  obtain e where e: "bot_format iso_seconds warning = Inr e"
    by (simp add: bot_format_Inr [of iso_seconds warning, OF iso_seconds_get_timestamp_warning])
  with C9_script_and_package [of iso_seconds warning discord_py_palette]
  have "main_format discord_py_palette iso_seconds warning =
          Inr (e\<lparr>color := (if levelno warning \<ge> 40 then red discord_py_palette
                            else if levelno warning = 30 then yellow discord_py_palette
                            else greyple discord_py_palette)\<rparr>)"
    by blast
  then have 4: "main_format discord_py_palette iso_seconds warning = Inr (e\<lparr>color := 0xFEE75C\<rparr>)"
    by (simp add: warning_def discord_py_palette_def)
  from 1 2 3 e 4 show ?thesis by blast
qed

text \<open>
  Claim C9 as stated fails with the colours of discord.py at level 30: the embed of main.py
  has the colour \<open>0xFEE75C\<close>, the embed of the package \<open>0xF1C40F\<close>.
\<close>

theorem C9_counterexample:
  "color (projr (main_format discord_py_palette iso_seconds warning)) = 0xFEE75C
   \<and> color (projr (bot_format iso_seconds warning)) = 0xF1C40F
   \<and> \<not> isl (main_format discord_py_palette iso_seconds warning)
   \<and> \<not> isl (bot_format iso_seconds warning)
   \<and> main_format discord_py_palette iso_seconds warning \<noteq> bot_format iso_seconds warning"
  by (simp add: main_format_bot_format
                bot_format_Inr [of iso_seconds warning, OF iso_seconds_get_timestamp_warning])
     (simp add: warning_def discord_py_palette_def get_color_def)

text \<open>
  Claim C10. \<open>init\<close> with a bot and no channel identifier returns a handler, and whether
  \<open>init\<close> raises never depends on the channel identifier. \<open>emit\<close> on that handler creates the
  send task as usual; the task itself raises \<^verbatim>\<open>AttributeError\<close>, because
  \<^verbatim>\<open>get_channel(None)\<close> is \<^verbatim>\<open>None\<close>.
\<close>

theorem C10_channel_id_unchecked:
  "init None (Some b) None = Inr \<lparr>webhook_url = None, bot = Some b, channel_id = None, level = NOTSET\<rparr>
   \<and> isl (init u bo cid) = isl (init u bo cid')
   \<and> (\<forall>h. init None (Some b) None = Inr h \<longrightarrow>
        (\<forall>e. bot_format (fromisoformat ev) r = Inr e \<longrightarrow>
              emit ev h r w = (Inr (), create_task b (SendLog h e) w))
        \<and> (\<forall>e w'. run_task ev (SendLog h e) w' = (Inl (AttributeError ''send''), w')))"
proof -
  have 1: "init None (Some b) None =
             Inr \<lparr>webhook_url = None, bot = Some b, channel_id = None, level = NOTSET\<rparr>"
    by (simp add: init_def truthy_bot_def truthy_str_def)
  have 2: "isl (init u bo cid) = isl (init u bo cid')"
    by (simp add: init_def)
  have 3: "\<forall>h. init None (Some b) None = Inr h \<longrightarrow>
        (\<forall>e. bot_format (fromisoformat ev) r = Inr e \<longrightarrow>
              emit ev h r w = (Inr (), create_task b (SendLog h e) w))
        \<and> (\<forall>e w'. run_task ev (SendLog h e) w' = (Inl (AttributeError ''send''), w'))"
    by (auto simp: 1 emit_bot send_log_def get_channel_def)
  from 1 2 3 show ?thesis by blast
qed

theorem C10_channel_id_unchecked_witness:
  "\<exists>h e. init None (Some bot0) None = Inr h
     \<and> channel_id h = None
     \<and> bot_format (fromisoformat env_ok) boom = Inr e
     \<and> emit env_ok h boom world0 = (Inr (), create_task bot0 (SendLog h e) world0)
     \<and> run_task env_ok (SendLog h e) (create_task bot0 (SendLog h e) world0)
         = (Inl (AttributeError ''send''), create_task bot0 (SendLog h e) world0)"
proof -
  note t = C10_channel_id_unchecked [of bot0 None None None None env_ok boom world0]
  let ?h = "\<lparr>webhook_url = None, bot = Some bot0, channel_id = None, level = NOTSET\<rparr>"
  from t have i: "init None (Some bot0) None = Inr ?h" by blast
  obtain e where e: "bot_format (fromisoformat env_ok) boom = Inr e"
    by (simp add: env_ok_def bot_format_Inr [of iso_seconds boom, OF iso_seconds_get_timestamp_boom])
  from t i e have 1: "emit env_ok ?h boom world0 = (Inr (), create_task bot0 (SendLog ?h e) world0)"
    by blast
  from t i have 2: "run_task env_ok (SendLog ?h e) (create_task bot0 (SendLog ?h e) world0)
         = (Inl (AttributeError ''send''), create_task bot0 (SendLog ?h e) world0)"
    by blast
  from i e 1 2 show ?thesis
    by (intro exI [of _ ?h] exI [of _ e]) simp
qed

section \<open>Construction and registration\<close>

text \<open>
  Claim C6. For every logger name and every configuration with exactly one of bot and
  webhook URL, \<open>configure_discord_logging\<close> returns the named logger; its level is
  \<^verbatim>\<open>DEBUG\<close>, so it is enabled for each of the five severities, and the new handler is the last
  of its handlers, with level \<^verbatim>\<open>INFO\<close>. A record of level \<^verbatim>\<open>DEBUG\<close> passes the logger and is not
  handed to the handler. The function of main.py does the same with its handler.
\<close>

theorem C6_registration:
  assumes "truthy_bot bot' \<noteq> truthy_str webhook_url'"
  shows "(\<exists>w' lg h.
            configure_discord_logging name bot' cid webhook_url' w = (Inr name, w')
            \<and> loggers w' name = Some lg
            \<and> logger_level lg = DEBUG
            \<and> (\<forall>lvl \<in> {DEBUG, INFO, WARNING, ERROR, CRITICAL}. isEnabledFor lg inherited lvl)
            \<and> handlers lg = registered_on w name @ [PackageHandler h]
            \<and> h = \<lparr>webhook_url = webhook_url', bot = bot', channel_id = cid, level = INFO\<rparr>
            \<and> (\<forall>r. levelno r = DEBUG \<longrightarrow>
                  isEnabledFor lg inherited (levelno r)
                  \<and> PackageHandler h \<notin> set (callHandlers lg r)))
       \<and> (\<exists>w' lg h.
            main_configure_discord_logging name b c w = (name, w')
            \<and> loggers w' name = Some lg
            \<and> logger_level lg = DEBUG
            \<and> (\<forall>lvl \<in> {DEBUG, INFO, WARNING, ERROR, CRITICAL}. isEnabledFor lg inherited lvl)
            \<and> handlers lg = registered_on w name @ [ScriptHandler h]
            \<and> h = \<lparr>main_bot = b, main_channel_id = c, main_level = INFO\<rparr>
            \<and> (\<forall>r. levelno r = DEBUG \<longrightarrow>
                  isEnabledFor lg inherited (levelno r)
                  \<and> ScriptHandler h \<notin> set (callHandlers lg r)))"
proof -
  have lv: "\<forall>lvl \<in> {DEBUG, INFO, WARNING, ERROR, CRITICAL}. DEBUG \<le> lvl"
    by (simp add: DEBUG_def INFO_def WARNING_def ERROR_def CRITICAL_def)
  let ?h = "\<lparr>webhook_url = webhook_url', bot = bot', channel_id = cid, level = INFO\<rparr>"
  let ?lg = "\<lparr>logger_level = DEBUG, handlers = registered_on w name @ [PackageHandler ?h]\<rparr>"
  let ?w = "w\<lparr>loggers := (loggers w)(name \<mapsto> ?lg)\<rparr>"
  have c: "configure_discord_logging name bot' cid webhook_url' w = (Inr name, ?w)"
    using configure_Inr [OF init_Inr [OF assms]] by simp
  have e: "\<forall>lvl \<in> {DEBUG, INFO, WARNING, ERROR, CRITICAL}. isEnabledFor ?lg inherited lvl"
    using lv by (simp add: debug_logger_enabled)
  have f: "\<forall>r. levelno r = DEBUG \<longrightarrow>
             isEnabledFor ?lg inherited (levelno r) \<and> PackageHandler ?h \<notin> set (callHandlers ?lg r)"
    by (simp add: debug_logger_enabled info_handler_filtered)
  have pkg: "\<exists>w' lg h.
            configure_discord_logging name bot' cid webhook_url' w = (Inr name, w')
            \<and> loggers w' name = Some lg
            \<and> logger_level lg = DEBUG
            \<and> (\<forall>lvl \<in> {DEBUG, INFO, WARNING, ERROR, CRITICAL}. isEnabledFor lg inherited lvl)
            \<and> handlers lg = registered_on w name @ [PackageHandler h]
            \<and> h = \<lparr>webhook_url = webhook_url', bot = bot', channel_id = cid, level = INFO\<rparr>
            \<and> (\<forall>r. levelno r = DEBUG \<longrightarrow>
                  isEnabledFor lg inherited (levelno r)
                  \<and> PackageHandler h \<notin> set (callHandlers lg r))"
    using c e f by (intro exI [of _ ?w] exI [of _ ?lg] exI [of _ ?h]) simp
  let ?m = "\<lparr>main_bot = b, main_channel_id = c, main_level = INFO\<rparr>"
  let ?mg = "\<lparr>logger_level = DEBUG, handlers = registered_on w name @ [ScriptHandler ?m]\<rparr>"
  let ?mw = "w\<lparr>loggers := (loggers w)(name \<mapsto> ?mg)\<rparr>"
  have mc: "main_configure_discord_logging name b c w = (name, ?mw)"
    by (simp add: main_configure)
  have me: "\<forall>lvl \<in> {DEBUG, INFO, WARNING, ERROR, CRITICAL}. isEnabledFor ?mg inherited lvl"
    using lv by (simp add: debug_logger_enabled)
  have mf: "\<forall>r. levelno r = DEBUG \<longrightarrow>
             isEnabledFor ?mg inherited (levelno r) \<and> ScriptHandler ?m \<notin> set (callHandlers ?mg r)"
    by (simp add: debug_logger_enabled info_handler_filtered)
  have scr: "\<exists>w' lg h.
            main_configure_discord_logging name b c w = (name, w')
            \<and> loggers w' name = Some lg
            \<and> logger_level lg = DEBUG
            \<and> (\<forall>lvl \<in> {DEBUG, INFO, WARNING, ERROR, CRITICAL}. isEnabledFor lg inherited lvl)
            \<and> handlers lg = registered_on w name @ [ScriptHandler h]
            \<and> h = \<lparr>main_bot = b, main_channel_id = c, main_level = INFO\<rparr>
            \<and> (\<forall>r. levelno r = DEBUG \<longrightarrow>
                  isEnabledFor lg inherited (levelno r)
                  \<and> ScriptHandler h \<notin> set (callHandlers lg r))"
    using mc me mf by (intro exI [of _ ?mw] exI [of _ ?mg] exI [of _ ?m]) simp
  from pkg scr show ?thesis ..
qed

theorem C6_registration_witness:
  "truthy_bot (Some bot0) \<noteq> truthy_str None
   \<and> (\<exists>w' lg.
         configure_discord_logging ''app'' (Some bot0) (Some 1234) None world0 = (Inr ''app'', w')
         \<and> loggers w' ''app'' = Some lg
         \<and> logger_level lg = 10
         \<and> handlers lg = [PackageHandler bot_handler0]
         \<and> isEnabledFor lg 30 10
         \<and> callHandlers lg (boom\<lparr>levelno := 10\<rparr>) = [])
   \<and> (\<exists>w' lg.
         main_configure_discord_logging ''app'' bot0 1234 world0 = (''app'', w')
         \<and> loggers w' ''app'' = Some lg
         \<and> logger_level lg = 10
         \<and> handlers lg = [ScriptHandler main_handler0]
         \<and> isEnabledFor lg 30 10
         \<and> callHandlers lg (boom\<lparr>levelno := 10\<rparr>) = [])"
proof -
  have a: "truthy_bot (Some bot0) \<noteq> truthy_str None"
    by (simp add: truthy_bot_def truthy_str_def)
  note t = C6_registration [OF a, of "''app''" "Some 1234" world0 30 bot0 1234]
  have d: "levelno (boom\<lparr>levelno := 10\<rparr>) = DEBUG" by (simp add: DEBUG_def)
  from t obtain mw mg mh where
    mc: "main_configure_discord_logging ''app'' bot0 1234 world0 = (''app'', mw)"
    and ml: "loggers mw ''app'' = Some mg" "logger_level mg = DEBUG"
    and me: "\<forall>lvl \<in> {DEBUG, INFO, WARNING, ERROR, CRITICAL}. isEnabledFor mg 30 lvl"
    and ms: "handlers mg = registered_on world0 ''app'' @ [ScriptHandler mh]"
    and mh: "mh = \<lparr>main_bot = bot0, main_channel_id = 1234, main_level = INFO\<rparr>"
    and mf: "\<forall>r. levelno r = DEBUG \<longrightarrow>
              isEnabledFor mg 30 (levelno r) \<and> ScriptHandler mh \<notin> set (callHandlers mg r)"
    by blast
  have ms': "handlers mg = [ScriptHandler main_handler0]"
    using ms mh by (simp add: registered_on_def world0_def main_handler0_def)
  from mf d have "ScriptHandler mh \<notin> set (callHandlers mg (boom\<lparr>levelno := 10\<rparr>))" by blast
  then have mn: "callHandlers mg (boom\<lparr>levelno := 10\<rparr>) = []"
    using ms' mh by (simp add: callHandlers_def main_handler0_def split: if_splits)
  from me have "isEnabledFor mg 30 10" by (simp add: DEBUG_def)
  with mc ml ms' mn have script: "\<exists>w' lg.
         main_configure_discord_logging ''app'' bot0 1234 world0 = (''app'', w')
         \<and> loggers w' ''app'' = Some lg
         \<and> logger_level lg = 10
         \<and> handlers lg = [ScriptHandler main_handler0]
         \<and> isEnabledFor lg 30 10
         \<and> callHandlers lg (boom\<lparr>levelno := 10\<rparr>) = []"
    by (simp add: DEBUG_def)
  from t obtain w' lg h where
    c: "configure_discord_logging ''app'' (Some bot0) (Some 1234) None world0 = (Inr ''app'', w')"
    and l: "loggers w' ''app'' = Some lg" "logger_level lg = DEBUG"
    and e: "\<forall>lvl \<in> {DEBUG, INFO, WARNING, ERROR, CRITICAL}. isEnabledFor lg 30 lvl"
    and hs: "handlers lg = registered_on world0 ''app'' @ [PackageHandler h]"
    and h: "h = \<lparr>webhook_url = None, bot = Some bot0, channel_id = Some 1234, level = INFO\<rparr>"
    and f: "\<forall>r. levelno r = DEBUG \<longrightarrow>
              isEnabledFor lg 30 (levelno r) \<and> PackageHandler h \<notin> set (callHandlers lg r)"
    by blast
  have hs': "handlers lg = [PackageHandler bot_handler0]"
    using hs h by (simp add: registered_on_def world0_def bot_handler0_def)
  from f d have "PackageHandler h \<notin> set (callHandlers lg (boom\<lparr>levelno := 10\<rparr>))" by blast
  then have n: "callHandlers lg (boom\<lparr>levelno := 10\<rparr>) = []"
    using hs' h by (simp add: callHandlers_def bot_handler0_def split: if_splits)
  from e have "isEnabledFor lg 30 10" by (simp add: DEBUG_def)
  with a c l hs' n script show ?thesis by (simp add: DEBUG_def)
qed

text \<open>
  Claim C2, amended. When both the bot and the webhook URL are given, or neither is (a URL
  that is \<^verbatim>\<open>None\<close> or empty is not given), \<open>init\<close> raises \<^verbatim>\<open>ValueError\<close>, and so does
  \<open>configure_discord_logging\<close>: no handler is registered on any logger, no request is made
  and no task is created. By then \<open>configure_discord_logging\<close> has fetched or created the
  named logger and set its level to \<^verbatim>\<open>DEBUG\<close>.
\<close>

theorem C2_configuration_error:
  assumes "truthy_bot bot' = truthy_str webhook_url'"
  shows "\<exists>msg w'.
           init webhook_url' bot' cid = Inl (ValueError msg)
           \<and> configure_discord_logging name bot' cid webhook_url' w = (Inl (ValueError msg), w')
           \<and> w' = setLevel name DEBUG (getLogger name w)
           \<and> (\<forall>n. registered_on w' n = registered_on w n)
           \<and> requests w' = requests w \<and> loop_tasks w' = loop_tasks w \<and> sent w' = sent w
           \<and> (\<exists>lg. loggers w' name = Some lg \<and> logger_level lg = DEBUG)"
proof -
  let ?msg = "if truthy_bot bot' then ''Cannot provide both bot and webhook_url.''
              else ''Either bot or webhook_url must be provided.''"
  let ?w = "setLevel name DEBUG (getLogger name w)"
  have i: "init webhook_url' bot' cid = Inl (ValueError ?msg)"
    using assms by (rule init_Inl)
  have c: "configure_discord_logging name bot' cid webhook_url' w = (Inl (ValueError ?msg), ?w)"
    using i by (rule configure_Inl)
  have r: "\<forall>n. registered_on ?w n = registered_on w n"
    by (simp add: prepare_logger registered_on_def)
  have o: "requests ?w = requests w \<and> loop_tasks ?w = loop_tasks w \<and> sent ?w = sent w
           \<and> (\<exists>lg. loggers ?w name = Some lg \<and> logger_level lg = DEBUG)"
    by (simp add: prepare_logger)
  from i c r o show ?thesis by blast
qed

theorem C2_configuration_error_witness:
  "truthy_bot None = truthy_str None
   \<and> truthy_bot (Some bot0) = truthy_str (Some ''https://discord.com/api/webhooks/1/x'')
   \<and> init None None None = Inl (ValueError ''Either bot or webhook_url must be provided.'')
   \<and> init (Some ''https://discord.com/api/webhooks/1/x'') (Some bot0) (Some 1234)
       = Inl (ValueError ''Cannot provide both bot and webhook_url.'')
   \<and> fst (configure_discord_logging ''app'' (Some bot0) (Some 1234)
            (Some ''https://discord.com/api/webhooks/1/x'') world0)
       = Inl (ValueError ''Cannot provide both bot and webhook_url.'')
   \<and> registered_on (snd (configure_discord_logging ''app'' (Some bot0) (Some 1234)
            (Some ''https://discord.com/api/webhooks/1/x'') world0)) ''app'' = []
   \<and> requests (snd (configure_discord_logging ''app'' (Some bot0) (Some 1234)
            (Some ''https://discord.com/api/webhooks/1/x'') world0)) = []"
proof -
  let ?u = "Some ''https://discord.com/api/webhooks/1/x''"
  have a: "truthy_bot None = truthy_str None"
    by (simp add: truthy_bot_def truthy_str_def)
  have b: "truthy_bot (Some bot0) = truthy_str ?u"
    by (simp add: truthy_bot_def truthy_str_def)
  from C2_configuration_error [OF a, of None "''app''" world0]
  obtain m where "init None None None = Inl (ValueError m)" by blast
  then have 1: "init None None None = Inl (ValueError ''Either bot or webhook_url must be provided.'')"
    by (simp add: init_def truthy_bot_def truthy_str_def)
  from C2_configuration_error [OF b, of "Some 1234" "''app''" world0]
  obtain msg w' where
    i: "init ?u (Some bot0) (Some 1234) = Inl (ValueError msg)"
    and c: "configure_discord_logging ''app'' (Some bot0) (Some 1234) ?u world0
              = (Inl (ValueError msg), w')"
    and r: "\<forall>n. registered_on w' n = registered_on world0 n"
    and q: "requests w' = requests world0"
    by blast
  from i have m: "msg = ''Cannot provide both bot and webhook_url.''"
    by (simp add: init_def truthy_bot_def truthy_str_def)
  from r have r': "registered_on w' ''app'' = []"
    by (simp add: registered_on_def world0_def)
  from q have q': "requests w' = []" by (simp add: world0_def)
  from a b 1 i c m r' q' show ?thesis by simp
qed

text \<open>
  Claim C2 as stated fails for the registration function: called with neither a bot nor a
  URL in a world without loggers, it raises and leaves the logger \<^verbatim>\<open>app\<close> behind, at level
  \<^verbatim>\<open>DEBUG\<close>.
\<close>

theorem C2_counterexample:
  "configure_discord_logging ''app'' None None None world0 =
     (Inl (ValueError ''Either bot or webhook_url must be provided.''),
      world0\<lparr>loggers := [''app'' \<mapsto> \<lparr>logger_level = 10, handlers = []\<rparr>]\<rparr>)
   \<and> loggers world0 ''app'' = None
   \<and> world0\<lparr>loggers := [''app'' \<mapsto> \<lparr>logger_level = 10, handlers = []\<rparr>]\<rparr> \<noteq> world0"
proof -
  have i: "init None None None = Inl (ValueError ''Either bot or webhook_url must be provided.'')"
    by (simp add: init_def truthy_bot_def truthy_str_def)
  have 1: "configure_discord_logging ''app'' None None None world0 =
     (Inl (ValueError ''Either bot or webhook_url must be provided.''),
      world0\<lparr>loggers := [''app'' \<mapsto> \<lparr>logger_level = 10, handlers = []\<rparr>]\<rparr>)"
    using prepare_logger [of "''app''" world0]
    by (simp add: configure_Inl [OF i]) (simp add: registered_on_def world0_def DEBUG_def)
  have 2: "loggers world0 ''app'' = None" by (simp add: world0_def)
  have "loggers (world0\<lparr>loggers := [''app'' \<mapsto> \<lparr>logger_level = 10, handlers = []\<rparr>]\<rparr>) ''app''
          \<noteq> loggers world0 ''app''"
    by (simp add: world0_def)
  then have 3: "world0\<lparr>loggers := [''app'' \<mapsto> \<lparr>logger_level = 10, handlers = []\<rparr>]\<rparr> \<noteq> world0"
    by metis
  from 1 2 3 show ?thesis by blast
qed

end
